theory Spec2Isabelle
  imports Complex_Main
begin

section \<open>The OTP handler of js/otp.js\<close>

text \<open>
  The class \<open>OTPHandler\<close> has four fields. The three nullable ones are options; a
  string is a list of characters whose length counts its elements, as the \<open>length\<close> of a
  JavaScript string counts its code units. \<open>Date.now()\<close> is an integer number of
  milliseconds. The value of \<open>Math.random()\<close> is a parameter \<open>r\<close> with
  \<open>0 \<le> r < 1\<close>, taken as an exact rational: the rounding of the double arithmetic
  in \<open>100000 + r * 900000\<close> is not modelled.
\<close>

record OTPHandler =
  generatedOTP :: "string option"
  otpExpiry :: "int option"
  countdownInterval :: "nat option"
  resendCooldown :: int

text \<open>The constructor.\<close>

definition new_OTPHandler :: OTPHandler where
  "new_OTPHandler =
     \<lparr>generatedOTP = None, otpExpiry = None, countdownInterval = None, resendCooldown = 60\<rparr>"

subsection \<open>Number to string\<close>

text \<open>
  \<open>Number.prototype.toString\<close> on an integral value below \<open>10^21\<close>: the decimal digits,
  most significant first, after a minus sign for a negative value.
\<close>

fun digits :: "nat \<Rightarrow> string" where
  "digits n =
     (if n < 10 then [''0123456789'' ! n]
      else digits (n div 10) @ [''0123456789'' ! (n mod 10)])"

declare digits.simps [simp del]

definition toString :: "int \<Rightarrow> string" where
  "toString i = (if i < 0 then CHR ''-'' # digits (nat (- i)) else digits (nat i))"

subsection \<open>Truthiness and comparison with null\<close>

text \<open>
  \<open>!x\<close> holds of \<open>null\<close>, of the empty string and of the number 0. The relational
  operator \<open>>\<close> converts a \<open>null\<close> operand to 0.
\<close>

definition falsy_string :: "string option \<Rightarrow> bool" where
  "falsy_string x = (case x of None \<Rightarrow> True | Some s \<Rightarrow> s = [])"

definition falsy_handle :: "nat option \<Rightarrow> bool" where
  "falsy_handle x = (case x of None \<Rightarrow> True | Some i \<Rightarrow> i = 0)"

definition number_of_nullable :: "int option \<Rightarrow> int" where
  "number_of_nullable x = (case x of None \<Rightarrow> 0 | Some e \<Rightarrow> e)"

subsection \<open>generateOTP and verifyOTP\<close>

definition generateOTP :: "OTPHandler \<Rightarrow> rat \<Rightarrow> int \<Rightarrow> string \<times> OTPHandler" where
  "generateOTP h r now =
     (let otp = toString (floor (100000 + r * 900000))
      in (otp, h\<lparr>generatedOTP := Some otp, otpExpiry := Some (now + 5 * 60 * 1000)\<rparr>))"

record otp_result =
  success :: bool
  message :: string

definition verifyOTP :: "OTPHandler \<Rightarrow> string \<Rightarrow> int \<Rightarrow> otp_result \<times> OTPHandler" where
  "verifyOTP h enteredOTP now =
     (if falsy_string (generatedOTP h) then
        (\<lparr>success = False,
          message = ''No OTP has been generated. Please request a new OTP.''\<rparr>, h)
      else if now > number_of_nullable (otpExpiry h) then
        (\<lparr>success = False, message = ''OTP has expired. Please request a new OTP.''\<rparr>,
         h\<lparr>generatedOTP := None\<rparr>)
      else if Some enteredOTP = generatedOTP h then
        (\<lparr>success = True, message = ''OTP verified successfully!''\<rparr>,
         h\<lparr>generatedOTP := None\<rparr>)
      else
        (\<lparr>success = False, message = ''Invalid OTP. Please try again.''\<rparr>, h))"

text \<open>The four verdicts, under the names the specification gives them.\<close>

definition Verified :: otp_result where
  "Verified = \<lparr>success = True, message = ''OTP verified successfully!''\<rparr>"

definition NoCodeRequested :: otp_result where
  "NoCodeRequested =
     \<lparr>success = False, message = ''No OTP has been generated. Please request a new OTP.''\<rparr>"

definition CodeExpired :: otp_result where
  "CodeExpired = \<lparr>success = False, message = ''OTP has expired. Please request a new OTP.''\<rparr>"

definition CodeMismatch :: otp_result where
  "CodeMismatch = \<lparr>success = False, message = ''Invalid OTP. Please try again.''\<rparr>"

subsection \<open>validatePhoneNumber and maskPhoneNumber\<close>

text \<open>
  The regular expression \<open>/^[0-9]{10}$/\<close> has no flags: \<open>^\<close> and \<open>$\<close> match only at
  the two ends of the input, and the class \<open>[0-9]\<close> is the range of code units from
  \<open>0\<close> to \<open>9\<close>. \<open>class_times n s\<close> matches \<open>[0-9]{n}\<close> at the start of \<open>s\<close> and
  returns what is left of it.
\<close>

definition in_class_0_9 :: "char \<Rightarrow> bool" where
  "in_class_0_9 c =
     ((of_char (CHR ''0'') :: nat) \<le> of_char c \<and> (of_char c :: nat) \<le> of_char (CHR ''9''))"

fun class_times :: "nat \<Rightarrow> string \<Rightarrow> string option" where
  "class_times 0 s = Some s"
| "class_times (Suc n) [] = None"
| "class_times (Suc n) (c # s) = (if in_class_0_9 c then class_times n s else None)"

definition validatePhoneNumber :: "string \<Rightarrow> bool" where
  "validatePhoneNumber phone = (class_times 10 phone = Some [])"

text \<open>The specification's words for the same test: exactly 10 ASCII digits.\<close>

definition ten_ascii_digits :: "string \<Rightarrow> bool" where
  "ten_ascii_digits s = (length s = 10 \<and> list_all (\<lambda>c. c \<in> set ''0123456789'') s)"

text \<open>
  \<open>substring(0, 3)\<close> and \<open>substring(7)\<close> clamp their indices to the length of the string,
  as \<open>take\<close> and \<open>drop\<close> do.
\<close>

definition maskPhoneNumber :: "string \<Rightarrow> string" where
  "maskPhoneNumber phone =
     (if length phone < 10 then phone else take 3 phone @ ''****'' @ drop 7 phone)"

subsection \<open>Timers\<close>

text \<open>
  \<open>sendOTP\<close>, \<open>startCountdown\<close> and \<open>stopCountdown\<close> use the timers of the host:
  \<open>setTimeout\<close>, \<open>setInterval\<close> and \<open>clearInterval\<close>. The \<open>world\<close> holds the global
  instance \<open>otpHandler\<close> and what the host keeps for it: the pending timeouts of
  \<open>sendOTP\<close> (each with the phone number its callback has captured, oldest first), the
  active intervals (each with its handle and the variables its callback has captured) and
  the last handle given out. Handles are positive integers. A display element and a
  completion callback are known by a number; \<open>effects\<close> records, oldest first, every
  assignment to \<open>textContent\<close> and every call of \<open>onComplete\<close>. The notification that
  \<open>showOTPNotification\<close> draws and the line \<open>sendOTP\<close> writes to the console neither
  read nor write the handler, and are left out.
\<close>

record countdown_closure =
  timeLeft :: int
  displayElement :: nat
  onComplete :: "nat option"

datatype effect = TextContent nat int | Called nat

record world =
  otpHandler :: OTPHandler
  timeouts :: "string list"
  intervals :: "(nat \<times> countdown_closure) list"
  last_handle :: nat
  effects :: "effect list"

definition new_world :: world where
  "new_world =
     \<lparr>otpHandler = new_OTPHandler, timeouts = [], intervals = [], last_handle = 0,
      effects = []\<rparr>"

definition setInterval :: "countdown_closure \<Rightarrow> world \<Rightarrow> nat \<times> world" where
  "setInterval c w =
     (let i = Suc (last_handle w)
      in (i, w\<lparr>intervals := intervals w @ [(i, c)], last_handle := i\<rparr>))"

text \<open>\<open>clearInterval\<close> of \<open>null\<close>, or of a handle that is not active, does nothing.\<close>

definition clearInterval :: "nat option \<Rightarrow> world \<Rightarrow> world" where
  "clearInterval x w =
     (case x of None \<Rightarrow> w
      | Some i \<Rightarrow> w\<lparr>intervals := filter (\<lambda>(j, c). j \<noteq> i) (intervals w)\<rparr>)"

subsection \<open>sendOTP\<close>

text \<open>
  The executor of the promise runs at once: it rejects an invalid number, and otherwise
  schedules the callback and leaves the promise pending. The callback runs 1500 ms
  later, with the values \<open>r\<close> of \<open>Math.random()\<close> and \<open>now\<close> of \<open>Date.now()\<close> at that
  moment, and resolves the promise.
\<close>

datatype promise_state = Pending | Rejected string

record send_result = otp_result +
  expiresIn :: int

definition InvalidPhoneFormat :: promise_state where
  "InvalidPhoneFormat =
     Rejected ''Invalid phone number format. Please enter a 10-digit number.''"

definition sendOTP :: "string \<Rightarrow> world \<Rightarrow> promise_state \<times> world" where
  "sendOTP phoneNumber w =
     (if \<not> validatePhoneNumber phoneNumber then
        (Rejected ''Invalid phone number format. Please enter a 10-digit number.'', w)
      else (Pending, w\<lparr>timeouts := timeouts w @ [phoneNumber]\<rparr>))"

definition sendOTP_timeout ::
  "string \<Rightarrow> rat \<Rightarrow> int \<Rightarrow> OTPHandler \<Rightarrow> send_result \<times> OTPHandler" where
  "sendOTP_timeout phoneNumber r now h =
     (let (otp, h') = generateOTP h r now
      in (\<lparr>success = True, message = ''OTP sent to '' @ maskPhoneNumber phoneNumber,
           expiresIn = 300\<rparr>, h'))"

subsection \<open>startCountdown and stopCountdown\<close>

definition startCountdown :: "nat \<Rightarrow> nat option \<Rightarrow> world \<Rightarrow> world" where
  "startCountdown el cb w =
     (let t = resendCooldown (otpHandler w);
          w1 = (if \<not> falsy_handle (countdownInterval (otpHandler w))
                then clearInterval (countdownInterval (otpHandler w)) w else w);
          w2 = w1\<lparr>effects := effects w1 @ [TextContent el t]\<rparr>;
          (i, w3) = setInterval \<lparr>timeLeft = t, displayElement = el, onComplete = cb\<rparr> w2
      in w3\<lparr>otpHandler := (otpHandler w3)\<lparr>countdownInterval := Some i\<rparr>\<rparr>)"

text \<open>
  The callback of the interval with handle \<open>i\<close>. It decrements its own \<open>timeLeft\<close>,
  shows it, and at 0 clears whatever interval the handler's field names at that moment.
\<close>

definition countdown_tick :: "nat \<Rightarrow> world \<Rightarrow> world" where
  "countdown_tick i w =
     (case map_of (intervals w) i of None \<Rightarrow> w
      | Some c \<Rightarrow>
          let t = timeLeft c - 1;
              w1 = w\<lparr>intervals :=
                       map (\<lambda>(j, d). if j = i then (j, d\<lparr>timeLeft := t\<rparr>) else (j, d))
                         (intervals w),
                     effects := effects w @ [TextContent (displayElement c) t]\<rparr>
          in if t \<le> 0 then
               (let w2 = clearInterval (countdownInterval (otpHandler w1)) w1
                in case onComplete c of None \<Rightarrow> w2
                   | Some k \<Rightarrow> w2\<lparr>effects := effects w2 @ [Called k]\<rparr>)
             else w1)"

definition stopCountdown :: "world \<Rightarrow> world" where
  "stopCountdown w =
     (if \<not> falsy_handle (countdownInterval (otpHandler w)) then
        (let w1 = clearInterval (countdownInterval (otpHandler w)) w
         in w1\<lparr>otpHandler := (otpHandler w1)\<lparr>countdownInterval := None\<rparr>\<rparr>)
      else w)"

subsection \<open>Sessions\<close>

text \<open>
  One second of the clock: every interval that was active at its start and is still
  active at its turn runs its callback once, in the order of creation.
\<close>

definition second :: "world \<Rightarrow> world" where
  "second w = fold countdown_tick (map fst (intervals w)) w"

fun advance :: "nat \<Rightarrow> world \<Rightarrow> world" where
  "advance 0 w = w"
| "advance (Suc n) w = advance n (second w)"

text \<open>
  What can happen to the global instance: a call of one of its methods, the callback of
  the oldest pending \<open>sendOTP\<close>, or a second of the clock.
\<close>

datatype op =
    SendOTP string
  | Timeout rat int
  | GenerateOTP rat int
  | VerifyOTP string int
  | StartCountdown nat "nat option"
  | StopCountdown
  | Second

fun step :: "world \<Rightarrow> op \<Rightarrow> world" where
  "step w (SendOTP phone) = snd (sendOTP phone w)"
| "step w (Timeout r now) =
     (case timeouts w of [] \<Rightarrow> w
      | phone # rest \<Rightarrow>
          w\<lparr>otpHandler := snd (sendOTP_timeout phone r now (otpHandler w)),
            timeouts := rest\<rparr>)"
| "step w (GenerateOTP r now) = w\<lparr>otpHandler := snd (generateOTP (otpHandler w) r now)\<rparr>"
| "step w (VerifyOTP entered now) =
     w\<lparr>otpHandler := snd (verifyOTP (otpHandler w) entered now)\<rparr>"
| "step w (StartCountdown el cb) = startCountdown el cb w"
| "step w StopCountdown = stopCountdown w"
| "step w Second = second w"

definition run :: "world \<Rightarrow> op list \<Rightarrow> world" where
  "run w ops = foldl step w ops"

subsection \<open>Properties of a session\<close>

text \<open>
  The specification's invariant in its own words: the code and its expiry are both set or
  both cleared.
\<close>

definition code_and_expiry_together :: "OTPHandler \<Rightarrow> bool" where
  "code_and_expiry_together h = ((generatedOTP h = None) = (otpExpiry h = None))"

text \<open>The specification's cleared session state: neither a code nor an expiry.\<close>

definition session_cleared :: "OTPHandler \<Rightarrow> bool" where
  "session_cleared h = (generatedOTP h = None \<and> otpExpiry h = None)"

text \<open>
  At most one interval is active, and it is the one the handler's field names; the
  cooldown is the constructor's; no handle is 0.
\<close>

definition one_countdown :: "world \<Rightarrow> bool" where
  "one_countdown w =
     (resendCooldown (otpHandler w) = 60 \<and> countdownInterval (otpHandler w) \<noteq> Some 0 \<and>
      (intervals w = [] \<or>
       (length (intervals w) = 1 \<and>
        countdownInterval (otpHandler w) = Some (fst (hd (intervals w))))))"

text \<open>A run of calls of \<open>verifyOTP\<close>, each with its entered string and clock value.\<close>

fun verify_all :: "OTPHandler \<Rightarrow> (string \<times> int) list \<Rightarrow> OTPHandler" where
  "verify_all h [] = h"
| "verify_all h ((entered, now) # vs) = verify_all (snd (verifyOTP h entered now)) vs"

section \<open>Evaluation and the phone number format\<close>

text \<open>
  The equation of \<open>digits\<close> is an unconditional recursion, so it is kept out of the
  simplifier and used through its two conditional halves.
\<close>

lemma digits_small: "n < 10 \<Longrightarrow> digits n = [''0123456789'' ! n]"
  by (subst digits.simps) simp

lemma digits_large:
  "\<not> n < 10 \<Longrightarrow> digits n = digits (n div 10) @ [''0123456789'' ! (n mod 10)]"
  by (subst digits.simps) simp

lemma digits_not_Nil: "digits n \<noteq> []"
  by (subst digits.simps) simp

lemma toString_not_Nil: "toString i \<noteq> []"
  by (simp add: toString_def digits_not_Nil)

lemma floor_rat_numeral:
  "\<lfloor>(numeral a :: rat) / numeral b\<rfloor> = numeral a div numeral b"
  using floor_divide_of_int_eq [where ?'a = rat, of "numeral a" "numeral b"] by simp

lemma char_eq_code: "(c = d) = ((of_char c :: nat) = of_char d)"
  by simp

lemma in_class_0_9_iff: "in_class_0_9 c = (c \<in> set ''0123456789'')"
proof -
  have "(c \<in> set ''0123456789'') =
        ((of_char c :: nat) \<in> {48, 49, 50, 51, 52, 53, 54, 55, 56, 57})"
    by (simp add: char_eq_code [of c])
  also have "\<dots> = in_class_0_9 c"
    unfolding in_class_0_9_def by (simp, arith)
  finally show ?thesis by simp
qed

lemma class_times_iff:
  "(class_times n s = Some t) =
   (\<exists>u. s = u @ t \<and> length u = n \<and> list_all in_class_0_9 u)"
proof (induction n s rule: class_times.induct)
  case (1 s)
  then show ?case by auto
next
  case (2 n)
  then show ?case by auto
next
  case (3 n c s)
  show ?case
  proof
    assume "class_times (Suc n) (c # s) = Some t"
    then have c: "in_class_0_9 c" and r: "class_times n s = Some t"
      by (auto split: if_splits)
    from r 3 c obtain u where "s = u @ t" "length u = n" "list_all in_class_0_9 u"
      by auto
    then have "c # s = (c # u) @ t \<and> length (c # u) = Suc n \<and>
        list_all in_class_0_9 (c # u)"
      using c by simp
    then show "\<exists>u. c # s = u @ t \<and> length u = Suc n \<and> list_all in_class_0_9 u"
      by blast
  next
    assume "\<exists>u. c # s = u @ t \<and> length u = Suc n \<and> list_all in_class_0_9 u"
    then obtain u where u: "c # s = u @ t" "length u = Suc n" "list_all in_class_0_9 u"
      by blast
    then obtain v where v: "u = c # v" by (cases u) auto
    with u have "in_class_0_9 c" "s = v @ t" "length v = n" "list_all in_class_0_9 v"
      by auto
    with 3 show "class_times (Suc n) (c # s) = Some t" by auto
  qed
qed

lemma validatePhoneNumber_iff: "validatePhoneNumber s = ten_ascii_digits s"
  by (auto simp: validatePhoneNumber_def ten_ascii_digits_def class_times_iff
      in_class_0_9_iff list_all_iff)

section \<open>Masking\<close>

text \<open>
  C9. For every string of exactly 10 digits, \<open>maskPhoneNumber\<close> returns the first 3
  characters, then exactly four \<open>*\<close>, then the last 3 characters; and \<open>0811234567\<close>
  masks to \<open>081****567\<close>.
\<close>

theorem maskPhoneNumber_ten_digits:
  "(ten_ascii_digits phone \<longrightarrow>
      maskPhoneNumber phone =
        take 3 phone @ replicate 4 (CHR ''*'') @ drop (length phone - 3) phone)
   \<and> maskPhoneNumber ''0811234567'' = ''081****567''"
  by (simp add: maskPhoneNumber_def ten_ascii_digits_def eval_nat_numeral)

theorem maskPhoneNumber_ten_digits_witness:
  "ten_ascii_digits ''0899900012'' \<and> maskPhoneNumber ''0899900012'' = ''089****012''"
  using maskPhoneNumber_ten_digits [of "''0899900012''"]
  by (simp add: ten_ascii_digits_def eval_nat_numeral)

text \<open>
  C10. For every string shorter than 10 characters, \<open>maskPhoneNumber\<close> returns the
  input unchanged; only an input of length 10 or more is masked.
\<close>

theorem maskPhoneNumber_short:
  "(length phone < 10 \<longrightarrow> maskPhoneNumber phone = phone)
   \<and> (10 \<le> length phone \<longrightarrow>
        maskPhoneNumber phone = take 3 phone @ ''****'' @ drop 7 phone)"
  by (simp add: maskPhoneNumber_def)

theorem maskPhoneNumber_short_witness:
  "length ''081123456'' < 10 \<and> maskPhoneNumber ''081123456'' = ''081123456''
   \<and> 10 \<le> length ''08112345678'' \<and> maskPhoneNumber ''08112345678'' = ''081****5678''"
  using maskPhoneNumber_short [of "''081123456''"]
    maskPhoneNumber_short [of "''08112345678''"]
  by simp

section \<open>Requesting a code\<close>

text \<open>
  C5. For every string of exactly 10 ASCII digits, \<open>sendOTP\<close> does not reject: it
  schedules its callback, and the callback, with whatever random value and clock and on
  whatever state it runs, resolves the promise with \<open>success: true\<close>. For every other
  string \<open>sendOTP\<close> rejects with the invalid phone number error and leaves everything
  (code, expiry, countdown handle, timers) as it was.
\<close>

theorem sendOTP_contract:
  "validatePhoneNumber phone = ten_ascii_digits phone
   \<and> (ten_ascii_digits phone \<longrightarrow>
        sendOTP phone w = (Pending, w\<lparr>timeouts := timeouts w @ [phone]\<rparr>)
        \<and> fst (sendOTP_timeout phone r now h) =
            \<lparr>success = True, message = ''OTP sent to '' @ maskPhoneNumber phone,
             expiresIn = 300\<rparr>)
   \<and> (\<not> ten_ascii_digits phone \<longrightarrow> sendOTP phone w = (InvalidPhoneFormat, w))"
  by (simp add: validatePhoneNumber_iff sendOTP_def sendOTP_timeout_def
      InvalidPhoneFormat_def generateOTP_def Let_def)

theorem sendOTP_contract_witness:
  "ten_ascii_digits ''0811234567''
   \<and> sendOTP ''0811234567'' new_world =
       (Pending, new_world\<lparr>timeouts := [''0811234567'']\<rparr>)
   \<and> fst (sendOTP_timeout ''0811234567'' (1 / 2) 1500 new_OTPHandler) =
       \<lparr>success = True, message = ''OTP sent to 081****567'', expiresIn = 300\<rparr>
   \<and> \<not> ten_ascii_digits ''08112x4567''
   \<and> sendOTP ''08112x4567'' new_world = (InvalidPhoneFormat, new_world)
   \<and> \<not> ten_ascii_digits ''''
   \<and> sendOTP '''' new_world = (InvalidPhoneFormat, new_world)"
  using sendOTP_contract [of "''0811234567''" new_world "1 / 2" 1500 new_OTPHandler]
    sendOTP_contract [of "''08112x4567''" new_world]
    sendOTP_contract [of "''''" new_world]
  by (simp add: ten_ascii_digits_def maskPhoneNumber_def new_world_def)

section \<open>Verifying a code\<close>

text \<open>
  C2. When \<open>verifyOTP\<close> succeeds with a code, an immediately following \<open>verifyOTP\<close> with
  the same code, at the same clock value, fails with \<open>NoCodeRequested\<close>.
\<close>

theorem verifyOTP_single_use:
  "success (fst (verifyOTP h c now)) \<Longrightarrow>
   fst (verifyOTP (snd (verifyOTP h c now)) c now) = NoCodeRequested"
  by (auto simp: verifyOTP_def NoCodeRequested_def falsy_string_def split: if_splits)

theorem verifyOTP_single_use_witness:
  "success (fst (verifyOTP (snd (generateOTP new_OTPHandler (1 / 2) 0)) ''550000'' 1000))
   \<and> fst (verifyOTP
        (snd (verifyOTP (snd (generateOTP new_OTPHandler (1 / 2) 0)) ''550000'' 1000))
        ''550000'' 1000) = NoCodeRequested"
  using verifyOTP_single_use
    [of "snd (generateOTP new_OTPHandler (1 / 2) 0)" "''550000''" 1000]
  by (simp add: verifyOTP_def generateOTP_def toString_def digits_small digits_large
      falsy_string_def number_of_nullable_def Let_def)

text \<open>
  C6. For a handler holding the code \<open>c\<close> with expiry instant \<open>e\<close>, \<open>verifyOTP\<close> of \<open>c\<close>
  succeeds at clock \<open>e - 1\<close> and fails with \<open>CodeExpired\<close> at clock \<open>e + 1\<close>.
\<close>

theorem verifyOTP_expiry_boundary:
  "generatedOTP h = Some c \<Longrightarrow> c \<noteq> [] \<Longrightarrow> otpExpiry h = Some e \<Longrightarrow>
   fst (verifyOTP h c (e - 1)) = Verified \<and> fst (verifyOTP h c (e + 1)) = CodeExpired"
  by (simp add: verifyOTP_def Verified_def CodeExpired_def falsy_string_def
      number_of_nullable_def)

theorem verifyOTP_expiry_boundary_witness:
  "generatedOTP (snd (generateOTP new_OTPHandler (1 / 2) 0)) = Some ''550000''
   \<and> otpExpiry (snd (generateOTP new_OTPHandler (1 / 2) 0)) = Some 300000
   \<and> fst (verifyOTP (snd (generateOTP new_OTPHandler (1 / 2) 0)) ''550000'' 299999)
       = Verified
   \<and> fst (verifyOTP (snd (generateOTP new_OTPHandler (1 / 2) 0)) ''550000'' 300001)
       = CodeExpired"
  using verifyOTP_expiry_boundary
    [of "snd (generateOTP new_OTPHandler (1 / 2) 0)" "''550000''" 300000]
  by (simp add: generateOTP_def toString_def digits_small digits_large Let_def)

text \<open>
  C7, as the code has it. For a handler holding a code whose expiry instant has passed,
  \<open>verifyOTP\<close> of any entered string fails with \<open>CodeExpired\<close> and clears the stored
  code, leaving \<open>otpExpiry\<close> as it was, so that the next \<open>verifyOTP\<close>, of any string at
  any time, fails with \<open>NoCodeRequested\<close>.
\<close>

theorem verifyOTP_expired_clears:
  "generatedOTP h = Some c \<Longrightarrow> c \<noteq> [] \<Longrightarrow> otpExpiry h = Some e \<Longrightarrow> e < now \<Longrightarrow>
   fst (verifyOTP h entered now) = CodeExpired
   \<and> generatedOTP (snd (verifyOTP h entered now)) = None
   \<and> otpExpiry (snd (verifyOTP h entered now)) = Some e
   \<and> fst (verifyOTP (snd (verifyOTP h entered now)) entered' now') = NoCodeRequested"
  by (simp add: verifyOTP_def CodeExpired_def NoCodeRequested_def falsy_string_def
      number_of_nullable_def)

theorem verifyOTP_expired_clears_witness:
  "generatedOTP (snd (generateOTP new_OTPHandler (1 / 4) 0)) = Some ''325000''
   \<and> otpExpiry (snd (generateOTP new_OTPHandler (1 / 4) 0)) = Some 300000
   \<and> fst (verifyOTP (snd (generateOTP new_OTPHandler (1 / 4) 0)) ''325000'' 300500)
       = CodeExpired
   \<and> otpExpiry (snd (verifyOTP (snd (generateOTP new_OTPHandler (1 / 4) 0))
        ''325000'' 300500)) = Some 300000
   \<and> fst (verifyOTP
        (snd (verifyOTP (snd (generateOTP new_OTPHandler (1 / 4) 0)) ''325000'' 300500))
        ''325000'' 300600) = NoCodeRequested"
  using verifyOTP_expired_clears
    [of "snd (generateOTP new_OTPHandler (1 / 4) 0)" "''325000''" 300000 300500
      "''325000''" "''325000''" 300600]
  by (simp add: generateOTP_def toString_def digits_small digits_large Let_def)

text \<open>
  The expired verification does not clear the whole session state: the expiry of the
  code it has cleared is still stored.
\<close>

theorem expired_verify_keeps_expiry:
  "fst (verifyOTP (otpHandler (run new_world
      [SendOTP ''0811234567'', Timeout (1 / 4) 1500])) ''325000'' 400000) = CodeExpired
   \<and> \<not> session_cleared (snd (verifyOTP (otpHandler (run new_world
      [SendOTP ''0811234567'', Timeout (1 / 4) 1500])) ''325000'' 400000))"
  by (simp add: session_cleared_def run_def new_world_def sendOTP_def sendOTP_timeout_def
      validatePhoneNumber_iff ten_ascii_digits_def generateOTP_def toString_def
      digits_small digits_large Let_def verifyOTP_def falsy_string_def
      number_of_nullable_def new_OTPHandler_def CodeExpired_def)

section \<open>Sessions and their invariants\<close>

lemma run_Nil [simp]: "run w [] = w"
  by (simp add: run_def)

lemma run_snoc [simp]: "run w (ops @ [x]) = step (run w ops) x"
  by (simp add: run_def)

lemma run_Cons: "run w (x # ops) = run (step w x) ops"
  by (simp add: run_def)

lemma clearInterval_handler [simp]: "otpHandler (clearInterval x w) = otpHandler w"
  by (simp add: clearInterval_def split: option.splits)

lemma clearInterval_effects [simp]: "effects (clearInterval x w) = effects w"
  by (simp add: clearInterval_def split: option.splits)

lemma countdown_tick_handler [simp]: "otpHandler (countdown_tick i w) = otpHandler w"
  by (simp add: countdown_tick_def Let_def split: option.splits)

lemma fold_countdown_tick_handler [simp]:
  "otpHandler (fold countdown_tick is w) = otpHandler w"
  by (induction "is" arbitrary: w) simp_all

lemma second_handler [simp]: "otpHandler (second w) = otpHandler w"
  by (simp add: second_def)

lemma second_no_intervals [simp]: "intervals w = [] \<Longrightarrow> second w = w"
  by (simp add: second_def)

lemma second_single:
  "intervals w = [(i, c)] \<Longrightarrow> second w = countdown_tick i w"
  by (simp add: second_def)

lemma startCountdown_code [simp]:
  "generatedOTP (otpHandler (startCountdown el cb w)) = generatedOTP (otpHandler w)"
  "otpExpiry (otpHandler (startCountdown el cb w)) = otpExpiry (otpHandler w)"
  by (simp_all add: startCountdown_def setInterval_def Let_def)

lemma stopCountdown_code [simp]:
  "generatedOTP (otpHandler (stopCountdown w)) = generatedOTP (otpHandler w)"
  "otpExpiry (otpHandler (stopCountdown w)) = otpExpiry (otpHandler w)"
  by (simp_all add: stopCountdown_def Let_def)

lemma verifyOTP_keeps_expiry [simp]: "otpExpiry (snd (verifyOTP h entered now)) = otpExpiry h"
  by (simp add: verifyOTP_def)

lemma step_keeps_expiry:
  "generatedOTP (otpHandler w) \<noteq> None \<longrightarrow> otpExpiry (otpHandler w) \<noteq> None \<Longrightarrow>
   generatedOTP (otpHandler (step w x)) \<noteq> None \<longrightarrow> otpExpiry (otpHandler (step w x)) \<noteq> None"
  by (cases x)
    (auto simp: sendOTP_def sendOTP_timeout_def generateOTP_def verifyOTP_def Let_def
      split: list.splits if_splits)

lemma run_keeps_expiry:
  "generatedOTP (otpHandler (run new_world ops)) \<noteq> None \<longrightarrow>
   otpExpiry (otpHandler (run new_world ops)) \<noteq> None"
proof (induction ops rule: rev_induct)
  case Nil
  show ?case by (simp add: new_world_def new_OTPHandler_def)
next
  case (snoc x ops)
  then show ?case using step_keeps_expiry [of "run new_world ops" x] by simp
qed


lemma generateOTP_timer_fields [simp]:
  "countdownInterval (snd (generateOTP h r now)) = countdownInterval h"
  "resendCooldown (snd (generateOTP h r now)) = resendCooldown h"
  by (simp_all add: generateOTP_def Let_def)

lemma verifyOTP_timer_fields [simp]:
  "countdownInterval (snd (verifyOTP h entered now)) = countdownInterval h"
  "resendCooldown (snd (verifyOTP h entered now)) = resendCooldown h"
  by (simp_all add: verifyOTP_def)

lemma sendOTP_timeout_generateOTP [simp]:
  "snd (sendOTP_timeout phone r now h) = snd (generateOTP h r now)"
  by (simp add: sendOTP_timeout_def generateOTP_def Let_def)

lemma countdown_tick_single:
  assumes "intervals w = [(i, c)]" and "countdownInterval (otpHandler w) = Some i"
  shows "countdown_tick i w =
    (if timeLeft c - 1 \<le> 0 then
       w\<lparr>intervals := [],
         effects := effects w @ TextContent (displayElement c) (timeLeft c - 1) #
           (case onComplete c of None \<Rightarrow> [] | Some k \<Rightarrow> [Called k])\<rparr>
     else
       w\<lparr>intervals := [(i, c\<lparr>timeLeft := timeLeft c - 1\<rparr>)],
         effects := effects w @ [TextContent (displayElement c) (timeLeft c - 1)]\<rparr>)"
  using assms
  by (simp add: countdown_tick_def clearInterval_def Let_def split: option.splits)

lemma advance_no_intervals [simp]: "intervals w = [] \<Longrightarrow> advance n w = w"
  by (induction n) simp_all

lemma advance_add: "advance (n + m) w = advance m (advance n w)"
  by (induction n arbitrary: w) simp_all

lemma advance_countdown:
  "intervals w = [(i, c)] \<Longrightarrow> countdownInterval (otpHandler w) = Some i \<Longrightarrow>
   timeLeft c = int (Suc n) \<Longrightarrow>
   intervals (advance (Suc n) w) = [] \<and>
   effects (advance (Suc n) w) =
     effects w @ map (\<lambda>k. TextContent (displayElement c) (int k)) (rev [0..<Suc n]) @
       (case onComplete c of None \<Rightarrow> [] | Some k \<Rightarrow> [Called k])"
proof (induction n arbitrary: w c)
  case 0
  then show ?case
    by (simp add: second_single countdown_tick_single)
next
  case (Suc n)
  let ?c = "c\<lparr>timeLeft := timeLeft c - 1\<rparr>"
  let ?w = "w\<lparr>intervals := [(i, ?c)],
    effects := effects w @ [TextContent (displayElement c) (timeLeft c - 1)]\<rparr>"
  from Suc.prems have s: "second w = ?w"
    by (simp add: second_single countdown_tick_single)
  have "intervals ?w = [(i, ?c)]" "countdownInterval (otpHandler ?w) = Some i"
    "timeLeft ?c = int (Suc n)"
    using Suc.prems by simp_all
  from Suc.IH [OF this] have
    "intervals (advance (Suc n) ?w) = []"
    "effects (advance (Suc n) ?w) =
       effects ?w @ map (\<lambda>k. TextContent (displayElement ?c) (int k)) (rev [0..<Suc n]) @
         (case onComplete ?c of None \<Rightarrow> [] | Some k \<Rightarrow> [Called k])"
    by simp_all
  then show ?case
    using s Suc.prems(3) by simp
qed

lemma clearInterval_last_handle [simp]: "last_handle (clearInterval x w) = last_handle w"
  by (simp add: clearInterval_def split: option.splits)

lemma one_countdown_cases:
  assumes "one_countdown w"
  obtains (none) "intervals w = []"
  | (one) i c where "intervals w = [(i, c)]" "countdownInterval (otpHandler w) = Some i"
      "i \<noteq> 0"
proof (cases "intervals w")
  case Nil
  then show ?thesis by (rule none)
next
  case (Cons p ps)
  with assms have "ps = []" "countdownInterval (otpHandler w) = Some (fst p)" "fst p \<noteq> 0"
    by (auto simp: one_countdown_def)
  with Cons show ?thesis by (intro one [of "fst p" "snd p"]) simp_all
qed

lemma startCountdown_one:
  assumes "one_countdown w"
  shows "intervals (startCountdown el cb w) =
      [(Suc (last_handle w), \<lparr>timeLeft = 60, displayElement = el, onComplete = cb\<rparr>)]"
    and "otpHandler (startCountdown el cb w) =
      (otpHandler w)\<lparr>countdownInterval := Some (Suc (last_handle w))\<rparr>"
    and "effects (startCountdown el cb w) = effects w @ [TextContent el 60]"
proof -
  from assms have c: "resendCooldown (otpHandler w) = 60"
    by (simp add: one_countdown_def)
  have e: "intervals
      (if \<not> falsy_handle (countdownInterval (otpHandler w))
       then clearInterval (countdownInterval (otpHandler w)) w else w) = []"
    using assms
    by (cases rule: one_countdown_cases)
      (simp_all add: clearInterval_def falsy_handle_def split: option.splits)
  show "intervals (startCountdown el cb w) =
      [(Suc (last_handle w), \<lparr>timeLeft = 60, displayElement = el, onComplete = cb\<rparr>)]"
    using e c by (simp add: startCountdown_def setInterval_def Let_def)
  show "otpHandler (startCountdown el cb w) =
      (otpHandler w)\<lparr>countdownInterval := Some (Suc (last_handle w))\<rparr>"
    by (simp add: startCountdown_def setInterval_def Let_def)
  show "effects (startCountdown el cb w) = effects w @ [TextContent el 60]"
    using c by (simp add: startCountdown_def setInterval_def Let_def)
qed

lemma stopCountdown_one:
  assumes "one_countdown w"
  shows "intervals (stopCountdown w) = []"
    and "effects (stopCountdown w) = effects w"
    and "otpHandler (stopCountdown w) = (otpHandler w)\<lparr>countdownInterval := None\<rparr>"
  using assms
  by (cases rule: one_countdown_cases;
      auto simp: stopCountdown_def clearInterval_def falsy_handle_def Let_def one_countdown_def
        split: option.splits)+

lemma second_one:
  assumes "one_countdown w"
  shows "one_countdown (second w)"
proof -
  from assms have c: "resendCooldown (otpHandler w) = 60"
    "countdownInterval (otpHandler w) \<noteq> Some 0"
    by (simp_all add: one_countdown_def)
  from assms show ?thesis
    by (cases rule: one_countdown_cases)
      (use c in \<open>auto simp: second_single countdown_tick_single one_countdown_def\<close>)
qed

lemma step_one:
  assumes "one_countdown w"
  shows "one_countdown (step w x)"
proof (cases x)
  case (StartCountdown el cb)
  with assms startCountdown_one [OF assms, of el cb] show ?thesis
    by (simp add: one_countdown_def)
next
  case StopCountdown
  with assms stopCountdown_one [OF assms] show ?thesis
    by (simp add: one_countdown_def)
next
  case Second
  with second_one [OF assms] show ?thesis by simp
qed (use assms in \<open>auto simp: one_countdown_def sendOTP_def split: list.splits\<close>)

lemma run_one: "one_countdown (run new_world ops)"
proof (induction ops rule: rev_induct)
  case Nil
  show ?case by (simp add: one_countdown_def new_world_def new_OTPHandler_def)
next
  case (snoc x ops)
  then show ?case by (simp add: step_one)
qed

lemma step_no_intervals:
  assumes "intervals w = []" and "\<And>el cb. x \<noteq> StartCountdown el cb"
  shows "intervals (step w x) = [] \<and> effects (step w x) = effects w"
  using assms
  by (cases x)
    (auto simp: sendOTP_def stopCountdown_def clearInterval_def Let_def
      split: list.splits option.splits)

lemma run_no_intervals:
  assumes "intervals w = []" and "\<forall>el cb. StartCountdown el cb \<notin> set evs"
  shows "intervals (run w evs) = [] \<and> effects (run w evs) = effects w"
  using assms(2)
proof (induction evs rule: rev_induct)
  case Nil
  show ?case using assms(1) by simp
next
  case (snoc x evs)
  then have "intervals (run w evs) = []" "effects (run w evs) = effects w"
    "\<And>el cb. x \<noteq> StartCountdown el cb"
    by auto
  with step_no_intervals [of "run w evs" x] show ?case by simp
qed

lemma verifyOTP_code_cases:
  "generatedOTP (snd (verifyOTP h entered now)) = None \<or>
   generatedOTP (snd (verifyOTP h entered now)) = generatedOTP h"
  by (simp add: verifyOTP_def)

lemma verify_all_code_cases:
  "generatedOTP (verify_all h vs) = None \<or> generatedOTP (verify_all h vs) = generatedOTP h"
proof (induction h vs rule: verify_all.induct)
  case (1 h)
  show ?case by simp
next
  case (2 h entered now vs)
  with verifyOTP_code_cases [of h entered now] show ?case by auto
qed

lemma verifyOTP_other_code:
  assumes "generatedOTP h = None \<or> generatedOTP h = Some c2" and "c1 \<noteq> c2"
  shows "fst (verifyOTP h c1 now) \<in> {CodeMismatch, CodeExpired, NoCodeRequested}"
  using assms
  by (auto simp: verifyOTP_def CodeMismatch_def CodeExpired_def NoCodeRequested_def
      falsy_string_def)

lemma countdown_effects:
  assumes "one_countdown w"
  shows "effects (startCountdown el (Some cb) w) = effects w @ [TextContent el 60]"
    and "effects (advance 60 (startCountdown el (Some cb) w)) =
        effects (startCountdown el (Some cb) w) @
          map (\<lambda>n. TextContent el (int n)) (rev [0..<60]) @ [Called cb]"
    and "effects (advance (60 + m) (startCountdown el (Some cb) w)) =
        effects (advance 60 (startCountdown el (Some cb) w))"
proof -
  let ?w = "startCountdown el (Some cb) w"
  let ?c = "\<lparr>timeLeft = 60, displayElement = el, onComplete = Some cb\<rparr>"
  have "intervals ?w = [(Suc (last_handle w), ?c)]"
    "countdownInterval (otpHandler ?w) = Some (Suc (last_handle w))"
    "timeLeft ?c = int (Suc 59)"
    by (simp_all add: startCountdown_one [OF assms])
  from advance_countdown [OF this] have
    a: "intervals (advance 60 ?w) = []"
    "effects (advance 60 ?w) =
       effects ?w @ map (\<lambda>n. TextContent el (int n)) (rev [0..<60]) @ [Called cb]"
    by simp_all
  show "effects ?w = effects w @ [TextContent el 60]"
    by (simp add: startCountdown_one [OF assms])
  show "effects (advance 60 ?w) =
       effects ?w @ map (\<lambda>n. TextContent el (int n)) (rev [0..<60]) @ [Called cb]"
    by (rule a(2))
  show "effects (advance (60 + m) ?w) = effects (advance 60 ?w)"
    using a(1) by (simp add: advance_add)
qed

lemma advance_handler [simp]: "otpHandler (advance n w) = otpHandler w"
  by (induction n arbitrary: w) simp_all

lemma run_replicate_Second: "run w (replicate n Second) = advance n w"
  by (induction n arbitrary: w) (simp_all add: run_Cons)

section \<open>Code and expiry\<close>

text \<open>
  C1, as the code has it. In every reachable session state a stored code has its expiry
  set. \<open>generateOTP\<close> sets both, the expiry to the clock plus 300000 ms. \<open>verifyOTP\<close>
  never changes \<open>otpExpiry\<close>: on success and on expiry it clears the code alone.
\<close>

theorem stored_code_has_expiry:
  "(generatedOTP (otpHandler (run new_world ops)) \<noteq> None \<longrightarrow>
      otpExpiry (otpHandler (run new_world ops)) \<noteq> None)
   \<and> generatedOTP (snd (generateOTP h0 r t)) \<noteq> None
   \<and> otpExpiry (snd (generateOTP h0 r t)) = Some (t + 300000)
   \<and> otpExpiry (snd (verifyOTP h entered now)) = otpExpiry h
   \<and> (fst (verifyOTP h entered now) \<in> {Verified, CodeExpired} \<longrightarrow>
        generatedOTP (snd (verifyOTP h entered now)) = None)"
  using run_keeps_expiry [of ops]
  by (simp add: generateOTP_def Let_def verifyOTP_def Verified_def CodeExpired_def)

theorem stored_code_has_expiry_witness:
  "generatedOTP (otpHandler (run new_world [SendOTP ''0811234567'', Timeout (1 / 2) 1500]))
     = Some ''550000''
   \<and> otpExpiry (otpHandler (run new_world [SendOTP ''0811234567'', Timeout (1 / 2) 1500]))
     = Some 301500
   \<and> fst (verifyOTP (snd (generateOTP new_OTPHandler (1 / 2) 0)) ''550000'' 2000) = Verified
   \<and> generatedOTP (snd (verifyOTP (snd (generateOTP new_OTPHandler (1 / 2) 0))
        ''550000'' 2000)) = None
   \<and> otpExpiry (snd (verifyOTP (snd (generateOTP new_OTPHandler (1 / 2) 0))
        ''550000'' 2000)) = Some 300000"
  using stored_code_has_expiry [where ops = "[SendOTP ''0811234567'', Timeout (1 / 2) 1500]"
      and h = "snd (generateOTP new_OTPHandler (1 / 2) 0)" and entered = "''550000''"
      and now = 2000 and ?h0.0 = new_OTPHandler and r = "1 / 2" and t = 0]
  by (simp add: run_def new_world_def sendOTP_def validatePhoneNumber_iff
      ten_ascii_digits_def generateOTP_def toString_def digits_small digits_large Let_def
      verifyOTP_def Verified_def falsy_string_def number_of_nullable_def)

text \<open>
  The invariant as the specification words it (both set or both cleared) fails after a
  request and a successful verification: the code is cleared and the expiry remains.
\<close>

theorem code_cleared_expiry_kept:
  "\<not> code_and_expiry_together (otpHandler (run new_world
      [SendOTP ''0811234567'', Timeout (1 / 2) 1500, VerifyOTP ''550000'' 2000]))"
  by (simp add: code_and_expiry_together_def run_def new_world_def sendOTP_def
      validatePhoneNumber_iff ten_ascii_digits_def generateOTP_def toString_def
      digits_small digits_large Let_def verifyOTP_def falsy_string_def
      number_of_nullable_def new_OTPHandler_def)

section \<open>Requesting a second code\<close>

text \<open>
  C4, as the code has it. When \<open>sendOTP\<close> has issued a code \<open>c1\<close> and then a different
  code \<open>c2\<close>, verifying \<open>c1\<close> never succeeds. Directly after the second request it fails
  with \<open>CodeMismatch\<close> up to the expiry of \<open>c2\<close> and with \<open>CodeExpired\<close> beyond it; after
  any further verifications it fails with \<open>CodeMismatch\<close>, \<open>CodeExpired\<close> or
  \<open>NoCodeRequested\<close>.
\<close>

theorem first_code_invalidated:
  "generatedOTP (snd (sendOTP_timeout p1 r1 t1 h0)) = Some c1 \<Longrightarrow>
   generatedOTP (snd (sendOTP_timeout p2 r2 t2 h1)) = Some c2 \<Longrightarrow> c1 \<noteq> c2 \<Longrightarrow>
   fst (verifyOTP (snd (sendOTP_timeout p2 r2 t2 h1)) c1 now) =
     (if t2 + 300000 < now then CodeExpired else CodeMismatch)
   \<and> fst (verifyOTP (verify_all (snd (sendOTP_timeout p2 r2 t2 h1)) vs) c1 now')
       \<in> {CodeMismatch, CodeExpired, NoCodeRequested}"
proof -
  assume a: "generatedOTP (snd (sendOTP_timeout p2 r2 t2 h1)) = Some c2" "c1 \<noteq> c2"
  let ?h = "snd (sendOTP_timeout p2 r2 t2 h1)"
  have "c2 \<noteq> []"
    using a(1) by (auto simp: generateOTP_def Let_def toString_not_Nil)
  moreover have "otpExpiry ?h = Some (t2 + 300000)"
    by (simp add: generateOTP_def Let_def)
  ultimately have 1: "fst (verifyOTP ?h c1 now) =
     (if t2 + 300000 < now then CodeExpired else CodeMismatch)"
    using a by (auto simp: verifyOTP_def falsy_string_def number_of_nullable_def
        CodeExpired_def CodeMismatch_def)
  have "generatedOTP (verify_all ?h vs) = None \<or> generatedOTP (verify_all ?h vs) = Some c2"
    using verify_all_code_cases [of ?h vs] a(1) by simp
  from verifyOTP_other_code [OF this a(2)] 1 show ?thesis by simp
qed

theorem first_code_invalidated_witness:
  "generatedOTP (snd (sendOTP_timeout ''0811234567'' (1 / 2) 1500 new_OTPHandler))
     = Some ''550000''
   \<and> generatedOTP (snd (sendOTP_timeout ''0811234567'' (1 / 4) 4000
        (snd (sendOTP_timeout ''0811234567'' (1 / 2) 1500 new_OTPHandler))))
     = Some ''325000''
   \<and> ''550000'' \<noteq> ''325000''
   \<and> fst (verifyOTP (snd (sendOTP_timeout ''0811234567'' (1 / 4) 4000
        (snd (sendOTP_timeout ''0811234567'' (1 / 2) 1500 new_OTPHandler))))
        ''550000'' 5000) = CodeMismatch
   \<and> fst (verifyOTP (snd (sendOTP_timeout ''0811234567'' (1 / 4) 4000
        (snd (sendOTP_timeout ''0811234567'' (1 / 2) 1500 new_OTPHandler))))
        ''550000'' 400000) = CodeExpired"
  using first_code_invalidated [of "''0811234567''" "1 / 2" 1500 new_OTPHandler "''550000''"
      "''0811234567''" "1 / 4" 4000
      "snd (sendOTP_timeout ''0811234567'' (1 / 2) 1500 new_OTPHandler)" "''325000''"
      5000 "[]" 5000]
    first_code_invalidated [of "''0811234567''" "1 / 2" 1500 new_OTPHandler "''550000''"
      "''0811234567''" "1 / 4" 4000
      "snd (sendOTP_timeout ''0811234567'' (1 / 2) 1500 new_OTPHandler)" "''325000''"
      400000 "[]" 5000]
  by (simp add: generateOTP_def toString_def digits_small digits_large Let_def)

text \<open>
  Two requests can issue the same code, from equal or from different random values;
  the first code is then the stored one, and verifies.
\<close>

theorem same_code_twice_verifies:
  "generatedOTP (otpHandler (run new_world [SendOTP ''0811234567'', Timeout (1 / 2) 1500]))
     = Some ''550000''
   \<and> fst (verifyOTP (otpHandler (run new_world
        [SendOTP ''0811234567'', Timeout (1 / 2) 1500,
         SendOTP ''0811234567'', Timeout (4500001 / 9000000) 4000])) ''550000'' 5000)
     = Verified"
  by (simp add: run_def new_world_def sendOTP_def
      validatePhoneNumber_iff ten_ascii_digits_def generateOTP_def toString_def
      digits_small digits_large Let_def verifyOTP_def falsy_string_def
      number_of_nullable_def new_OTPHandler_def Verified_def floor_rat_numeral)

section \<open>The resend countdown\<close>

text \<open>
  C3, as the code has it. In every reachable session state, \<open>startCountdown\<close> itself
  writes the cooldown 60 to the display element; the 60 seconds that follow write exactly
  59, 58, ..., 1, 0, and \<open>onComplete\<close> is then called once; further seconds add nothing.
\<close>

theorem countdown_sequence:
  assumes "w = run new_world ops"
  shows "effects (startCountdown el (Some cb) w) = effects w @ [TextContent el 60]
    \<and> effects (advance 60 (startCountdown el (Some cb) w)) =
        effects (startCountdown el (Some cb) w) @
          map (\<lambda>n. TextContent el (int n)) (rev [0..<60]) @ [Called cb]
    \<and> effects (advance (60 + m) (startCountdown el (Some cb) w)) =
        effects (advance 60 (startCountdown el (Some cb) w))"
proof -
  have "one_countdown w" using assms by (simp add: run_one)
  from countdown_effects [OF this] show ?thesis by simp
qed

theorem countdown_sequence_witness:
  "effects (startCountdown 7 (Some 9) new_world) = [TextContent 7 60]
   \<and> effects (advance 60 (startCountdown 7 (Some 9) new_world)) =
       TextContent 7 60 # map (\<lambda>n. TextContent 7 (int n)) (rev [0..<60]) @ [Called 9]
   \<and> effects (advance (60 + 5) (startCountdown 7 (Some 9) new_world)) =
       effects (advance 60 (startCountdown 7 (Some 9) new_world))"
  using countdown_sequence [of new_world "[]" 7 9 5]
  by (simp add: new_world_def)

text \<open>
  What the display element and the callback receive from a start and 60 seconds is not
  59, ..., 0 and the call alone: the 60 comes first.
\<close>

theorem countdown_shows_cooldown_first:
  "effects (advance 60 (startCountdown 7 (Some 9) new_world)) \<noteq>
     map (\<lambda>n. TextContent 7 (int n)) (rev [0..<60]) @ [Called 9]"
proof
  assume e: "effects (advance 60 (startCountdown 7 (Some 9) new_world)) =
     map (\<lambda>n. TextContent 7 (int n)) (rev [0..<60]) @ [Called 9]"
  have "one_countdown new_world"
    using run_one [of "[]"] by simp
  from countdown_effects(1,2) [OF this, of 7 9]
  have "length (effects (advance 60 (startCountdown 7 (Some 9) new_world))) = 62"
    by (simp add: new_world_def)
  moreover have
    "length (map (\<lambda>n. TextContent 7 (int n)) (rev [0..<60]) @ [Called 9]) = 61"
    by simp
  ultimately show False using e by simp
qed

text \<open>
  C8, as the code has it. In every reachable session state, after \<open>stopCountdown\<close> no
  number of seconds, and no sequence of events without a new \<open>startCountdown\<close>, writes to
  a display element or calls \<open>onComplete\<close>. With no active interval \<open>stopCountdown\<close>
  changes nothing but the handle field, which it sets to null; with the handle already
  null it changes nothing at all.
\<close>

theorem stopCountdown_cancels:
  assumes "w = run new_world ops"
  shows "effects (advance n (stopCountdown w)) = effects w
    \<and> ((\<forall>el cb. StartCountdown el cb \<notin> set evs) \<longrightarrow>
         effects (run (stopCountdown w) evs) = effects w)
    \<and> (intervals w = [] \<longrightarrow>
         stopCountdown w = w\<lparr>otpHandler := (otpHandler w)\<lparr>countdownInterval := None\<rparr>\<rparr>)
    \<and> (countdownInterval (otpHandler w) = None \<longrightarrow> stopCountdown w = w)"
proof -
  have o: "one_countdown w" using assms by (simp add: run_one)
  note s = stopCountdown_one [OF o]
  have 1: "effects (advance n (stopCountdown w)) = effects w"
    using s by simp
  have 2: "(\<forall>el cb. StartCountdown el cb \<notin> set evs) \<longrightarrow>
         effects (run (stopCountdown w) evs) = effects w"
    using run_no_intervals [OF s(1), of evs] s(2) by simp
  have 3: "intervals w = [] \<longrightarrow>
         stopCountdown w = w\<lparr>otpHandler := (otpHandler w)\<lparr>countdownInterval := None\<rparr>\<rparr>"
    using o by (auto simp: stopCountdown_def clearInterval_def falsy_handle_def Let_def
        one_countdown_def split: option.splits)
  have 4: "countdownInterval (otpHandler w) = None \<longrightarrow> stopCountdown w = w"
    by (simp add: stopCountdown_def falsy_handle_def)
  from 1 2 3 4 show ?thesis by simp
qed

theorem stopCountdown_cancels_witness:
  "effects (advance 100 (stopCountdown
      (run new_world [StartCountdown 7 (Some 9), Second, Second]))) =
     [TextContent 7 60, TextContent 7 59, TextContent 7 58]
   \<and> effects (run (stopCountdown
      (run new_world [StartCountdown 7 (Some 9), Second, Second]))
        [Second, VerifyOTP ''123456'' 5000, Second, StopCountdown, Second]) =
     [TextContent 7 60, TextContent 7 59, TextContent 7 58]
   \<and> stopCountdown new_world = new_world"
  using stopCountdown_cancels [of "run new_world [StartCountdown 7 (Some 9), Second, Second]"
      "[StartCountdown 7 (Some 9), Second, Second]" 100
      "[Second, VerifyOTP ''123456'' 5000, Second, StopCountdown, Second]"]
    stopCountdown_cancels [of new_world "[]" 0 "[]"]
  by (simp add: run_def new_world_def new_OTPHandler_def startCountdown_def setInterval_def
      falsy_handle_def second_def countdown_tick_def Let_def)

text \<open>
  With no countdown active \<open>stopCountdown\<close> is not always the identity: a countdown that
  has run to 0 leaves its handle in the field, and \<open>stopCountdown\<close> then sets the field to
  null.
\<close>

theorem stopCountdown_nulls_finished_handle:
  "intervals (run new_world (StartCountdown 7 (Some 9) # replicate 60 Second)) = []
   \<and> stopCountdown (run new_world (StartCountdown 7 (Some 9) # replicate 60 Second)) \<noteq>
       run new_world (StartCountdown 7 (Some 9) # replicate 60 Second)"
proof -
  let ?s = "startCountdown 7 (Some 9) new_world"
  let ?w = "run new_world (StartCountdown 7 (Some 9) # replicate 60 Second)"
  let ?c = "\<lparr>timeLeft = 60, displayElement = 7, onComplete = Some 9\<rparr>"
  have w: "?w = advance 60 ?s"
    by (simp add: run_Cons run_replicate_Second)
  have n: "one_countdown new_world"
    using run_one [of "[]"] by simp
  have "intervals ?s = [(Suc (last_handle new_world), ?c)]"
    "countdownInterval (otpHandler ?s) = Some (Suc (last_handle new_world))"
    "timeLeft ?c = int (Suc 59)"
    by (simp_all add: startCountdown_one [OF n])
  from advance_countdown [OF this] have i: "intervals (advance 60 ?s) = []"
    by simp
  have h: "countdownInterval (otpHandler (advance 60 ?s)) = Some (Suc (last_handle new_world))"
    by (simp add: startCountdown_one [OF n])
  have "one_countdown ?w" by (rule run_one)
  then have "one_countdown (advance 60 ?s)" by (simp only: w)
  from stopCountdown_one(3) [OF this]
  have "countdownInterval (otpHandler (stopCountdown (advance 60 ?s))) = None"
    by simp
  with h have "stopCountdown (advance 60 ?s) \<noteq> advance 60 ?s"
    by auto
  with i show ?thesis by (simp add: w)
qed

end
